theory Spec2Isabelle
  imports Main "HOL-Library.Word"
begin

section \<open>The zlib interoperability shim\<close>

text \<open>
  The header \<^verbatim>\<open>Sources/CZlib/include/CNIOExtrasZlib.h\<close> holds two functions:
  \<^verbatim>\<open>
  static inline int CZlib_inflateInit2(z_streamp strm, int windowBits) {
      return inflateInit2(strm, windowBits);
  }

  static inline Bytef *CZlib_voidPtr_to_BytefPtr(void *in) {
      return (Bytef *)in;
  }
  \<close>
  Both are embedded below together with the little of C they stand on: typed pointers,
  calls that run in a machine state, and byte-addressed memory.
\<close>

subsection \<open>Pointers\<close>

text \<open>
  A pointer is an address that carries the C type it points to as a type argument only:
  \<open>void *\<close>, \<open>Bytef *\<close> and \<open>z_streamp\<close> differ in \<open>'t\<close>, never in what is stored.
  Addresses are words of \<open>'w\<close> bits, the pointer width of the target.
\<close>

datatype ('a, 't) pointer = Ptr (ptr_val: 'a)

type_synonym ('w, 't) ptr = "('w word, 't) pointer"

text \<open>\<open>void\<close>, and zlib's \<open>z_stream\<close>, whose layout belongs to zlib: both are opaque here.\<close>

typedecl c_void
typedecl z_stream

type_synonym byte = "8 word"
type_synonym Bytef = byte
type_synonym c_int = "32 word"
type_synonym 'w z_streamp = "('w, z_stream) ptr"

definition NULL :: "('w::len, 't) ptr" where
  "NULL = Ptr 0"

text \<open>The C cast between object pointer types, \<^verbatim>\<open>(T *)p\<close>: the address is kept.\<close>

definition cast_ptr :: "('w::len, 'a) ptr \<Rightarrow> ('w, 'b) ptr" where
  "cast_ptr p = Ptr (ptr_val p)"

subsection \<open>Calls\<close>

text \<open>
  A C function call runs in a machine state \<open>'s\<close>. It either does not return
  normally (a fault: \<open>None\<close>) or returns a value together with the state it leaves.
\<close>

type_synonym ('s, 'a) call = "'s \<Rightarrow> ('a \<times> 's) option"

definition c_return :: "'a \<Rightarrow> ('s, 'a) call" where
  "c_return x = (\<lambda>s. Some (x, s))"

definition c_bind :: "('s, 'a) call \<Rightarrow> ('a \<Rightarrow> ('s, 'b) call) \<Rightarrow> ('s, 'b) call" where
  "c_bind m k = (\<lambda>s. case m s of None \<Rightarrow> None | Some (x, s') \<Rightarrow> k x s')"

subsection \<open>The two functions of the header\<close>

text \<open>
  \<open>inflateInit2\<close> comes from \<^verbatim>\<open><zlib.h>\<close>, which is zlib's and not part of this
  repository: it is a parameter of the model, any call taking the stream handle and the
  window bits. The body is one call of it, whose value is returned.
\<close>

definition CZlib_inflateInit2 ::
  "('w z_streamp \<Rightarrow> c_int \<Rightarrow> ('s, c_int) call) \<Rightarrow> ('w::len) z_streamp \<Rightarrow> c_int \<Rightarrow> ('s, c_int) call" where
  "CZlib_inflateInit2 inflateInit2 strm windowBits =
     c_bind (inflateInit2 strm windowBits) (\<lambda>rv. c_return rv)"

definition CZlib_voidPtr_to_BytefPtr :: "('w::len, c_void) ptr \<Rightarrow> ('s, ('w, Bytef) ptr) call" where
  "CZlib_voidPtr_to_BytefPtr in_ptr = c_return (cast_ptr in_ptr)"

subsection \<open>Memory\<close>

text \<open>
  Byte-addressed memory. Storing a run of bytes writes them at consecutive addresses,
  loading reads them back from consecutive addresses; address arithmetic is that of the
  pointer width.
\<close>

type_synonym 'w memory = "'w word \<Rightarrow> byte"

fun store_at :: "'w::len word \<Rightarrow> byte list \<Rightarrow> 'w memory \<Rightarrow> 'w memory" where
  "store_at a [] m = m"
| "store_at a (x # xs) m = store_at (a + 1) xs (m(a := x))"

fun load_at :: "'w::len word \<Rightarrow> nat \<Rightarrow> 'w memory \<Rightarrow> byte list" where
  "load_at a 0 m = []"
| "load_at a (Suc n) m = m a # load_at (a + 1) n m"

text \<open>Writing through a \<open>Bytef *\<close> and reading through a \<open>void *\<close>, as calls.\<close>

definition write_bytes :: "('w::len, Bytef) ptr \<Rightarrow> byte list \<Rightarrow> ('w memory, unit) call" where
  "write_bytes q xs = (\<lambda>m. Some ((), store_at (ptr_val q) xs m))"

definition read_bytes :: "('w::len, c_void) ptr \<Rightarrow> nat \<Rightarrow> ('w memory, byte list) call" where
  "read_bytes p n = (\<lambda>m. Some (load_at (ptr_val p) n m, m))"

subsection \<open>What the specification says, and the scenarios it describes\<close>

text \<open>
  Operation A in the specification's words: it forwards both arguments unchanged to the
  underlying library's windowed-initialization routine and returns its result verbatim.
\<close>

definition Initialize_Inflate_Stream ::
  "('w z_streamp \<Rightarrow> c_int \<Rightarrow> ('s, c_int) call) \<Rightarrow> ('w::len) z_streamp \<Rightarrow> c_int \<Rightarrow> ('s, c_int) call" where
  "Initialize_Inflate_Stream library_init handle window_bits = library_init handle window_bits"

text \<open>
  Initializing the same handle twice in succession with some initializer \<open>init\<close>, first
  with \<open>w1\<close>, then with \<open>w2\<close>, keeping both status codes.
\<close>

definition init_twice ::
  "(('w::len) z_streamp \<Rightarrow> c_int \<Rightarrow> ('s, c_int) call) \<Rightarrow> 'w z_streamp \<Rightarrow> c_int \<Rightarrow> c_int
     \<Rightarrow> ('s, c_int \<times> c_int) call" where
  "init_twice init strm w1 w2 =
     c_bind (init strm w1) (\<lambda>r1. c_bind (init strm w2) (\<lambda>r2. c_return (r1, r2)))"

text \<open>
  Reinterpreting the buffer reference \<open>b\<close>, writing the bytes \<open>xs\<close> through the result,
  then reading as many bytes back through \<open>b\<close> itself.
\<close>

definition write_then_read :: "('w::len, c_void) ptr \<Rightarrow> byte list \<Rightarrow> ('w memory, byte list) call" where
  "write_then_read b xs =
     c_bind (CZlib_voidPtr_to_BytefPtr b) (\<lambda>q.
     c_bind (write_bytes q xs) (\<lambda>_. read_bytes b (length xs)))"

section \<open>Properties\<close>

subsection \<open>Shared facts\<close>

lemma c_bind_return: "c_bind m (\<lambda>x. c_return x) = m"
  by (rule ext) (simp add: c_bind_def c_return_def split: option.split)

lemma CZlib_inflateInit2_unfold: "CZlib_inflateInit2 lib strm windowBits = lib strm windowBits"
  by (simp add: CZlib_inflateInit2_def c_bind_return)

lemma CZlib_voidPtr_to_BytefPtr_unfold:
  "CZlib_voidPtr_to_BytefPtr p s = Some (Ptr (ptr_val p), s)"
  by (simp add: CZlib_voidPtr_to_BytefPtr_def c_return_def cast_ptr_def)

lemma store_at_other:
  "(\<And>i. i < length xs \<Longrightarrow> a + of_nat i \<noteq> b) \<Longrightarrow> store_at a xs m b = m b"
proof (induction xs arbitrary: a m)
  case Nil
  then show ?case by simp
next
  case (Cons x xs)
  have "a + of_nat 0 \<noteq> b" using Cons.prems[of 0] by simp
  then have ab: "a \<noteq> b" by simp
  have "store_at (a + 1) xs (m(a := x)) b = (m(a := x)) b"
  proof (rule Cons.IH)
    fix i assume "i < length xs"
    then have "a + of_nat (Suc i) \<noteq> b" using Cons.prems[of "Suc i"] by simp
    then show "a + 1 + of_nat i \<noteq> b" by (simp add: add.commute add.left_commute)
  qed
  with ab show ?case by simp
qed

lemma word_succ_offset_neq:
  fixes a :: "'w::len word"
  assumes "Suc i < 2 ^ LENGTH('w)"
  shows "a + 1 + of_nat i \<noteq> a"
proof
  assume "a + 1 + of_nat i = a"
  then have "a + (of_nat (Suc i) :: 'w word) = a + 0" by (simp add: add.assoc)
  then have "(of_nat (Suc i) :: 'w word) = 0" by (simp only: add_left_cancel)
  then have "2 ^ LENGTH('w) dvd Suc i" by (simp only: word_of_nat_eq_0_iff)
  with assms show False by (auto dest: dvd_imp_le simp del: of_nat_Suc)
qed

lemma load_store_at:
  "length xs \<le> 2 ^ LENGTH('w) \<Longrightarrow> load_at (a :: 'w::len word) (length xs) (store_at a xs m) = xs"
proof (induction xs arbitrary: a m)
  case Nil
  then show ?case by simp
next
  case (Cons x xs)
  have "store_at (a + 1) xs (m(a := x)) a = (m(a := x)) a"
  proof (rule store_at_other)
    fix i assume "i < length xs"
    with Cons.prems have "Suc i < 2 ^ LENGTH('w)" by simp
    then show "a + 1 + of_nat i \<noteq> a" by (rule word_succ_offset_neq)
  qed
  moreover have "load_at (a + 1) (length xs) (store_at (a + 1) xs (m(a := x))) = xs"
    using Cons.prems by (intro Cons.IH) simp
  ultimately show ?case by simp
qed

lemma write_then_read_unfold:
  "write_then_read b xs m =
     Some (load_at (ptr_val b) (length xs) (store_at (ptr_val b) xs m), store_at (ptr_val b) xs m)"
  by (simp add: write_then_read_def c_bind_def CZlib_voidPtr_to_BytefPtr_unfold
      write_bytes_def read_bytes_def)

subsection \<open>Reinterpreting a buffer reference\<close>

text \<open>
  C2. For every pointer \<open>p\<close> and in every state, \<open>CZlib_voidPtr_to_BytefPtr p\<close> returns a
  byte pointer holding the address of \<open>p\<close>: it returns whatever \<open>p\<close> is (no null check,
  no bounds check: there is no fault), the address is not transformed, and the state is
  left as it was (nothing is copied).
\<close>

theorem CZlib_voidPtr_to_BytefPtr_same_address:
  "\<exists>q. CZlib_voidPtr_to_BytefPtr p s = Some (q, s) \<and> ptr_val q = ptr_val p"
  by (simp add: CZlib_voidPtr_to_BytefPtr_unfold)

text \<open>
  C9. \<open>CZlib_voidPtr_to_BytefPtr\<close> is total: for every pointer, the null pointer
  included, it returns and leaves the state alone. \<open>NULL\<close> is mapped to \<open>NULL\<close>, and two
  calls return the same pointer exactly when they were given the same pointer.
\<close>

theorem CZlib_voidPtr_to_BytefPtr_total_injective:
  "(\<exists>q. CZlib_voidPtr_to_BytefPtr p s = Some (q, s))
   \<and> CZlib_voidPtr_to_BytefPtr NULL s = Some (NULL, s)
   \<and> ((CZlib_voidPtr_to_BytefPtr p s = CZlib_voidPtr_to_BytefPtr p' s) = (p = p'))"
  by (cases p, cases p') (simp add: CZlib_voidPtr_to_BytefPtr_unfold NULL_def)

text \<open>
  C4. Let \<open>b\<close> refer to a buffer of \<open>len\<close> bytes (so the buffer lies inside the address
  space) and let \<open>xs\<close> be at most \<open>len\<close> bytes. Reinterpreting \<open>b\<close>, writing \<open>xs\<close>
  through the result and reading \<open>length xs\<close> bytes back through \<open>b\<close> returns \<open>xs\<close>; the
  memory afterwards is the memory before with \<open>xs\<close> stored at the address of \<open>b\<close>, and the
  reinterpretation alone leaves the memory as it was.
\<close>

theorem reinterpret_write_read_roundtrip:
  fixes b :: "('w::len, c_void) ptr"
  assumes "unat (ptr_val b) + len \<le> 2 ^ LENGTH('w)" and "length xs \<le> len"
  shows "write_then_read b xs m = Some (xs, store_at (ptr_val b) xs m)
         \<and> CZlib_voidPtr_to_BytefPtr b m = Some (cast_ptr b, m)"
proof -
  from assms have "length xs \<le> 2 ^ LENGTH('w)" by linarith
  then have "load_at (ptr_val b) (length xs) (store_at (ptr_val b) xs m) = xs"
    by (rule load_store_at)
  then show ?thesis
    by (simp add: write_then_read_unfold CZlib_voidPtr_to_BytefPtr_unfold cast_ptr_def)
qed

theorem reinterpret_write_read_roundtrip_witness:
  "unat (ptr_val (Ptr 4096 :: (64, c_void) ptr)) + 4 \<le> 2 ^ LENGTH(64)
   \<and> length [1, 2, 3 :: byte] \<le> 4
   \<and> write_then_read (Ptr 4096 :: (64, c_void) ptr) [1, 2, 3] (\<lambda>a. 0)
       = Some ([1, 2, 3], store_at 4096 [1, 2, 3] (\<lambda>a. 0))
   \<and> CZlib_voidPtr_to_BytefPtr (Ptr 4096 :: (64, c_void) ptr) (\<lambda>a :: 64 word. 0 :: byte)
       = Some (Ptr 4096, \<lambda>a. 0)"
  using reinterpret_write_read_roundtrip [of "Ptr 4096 :: (64, c_void) ptr" 4 "[1, 2, 3]" "\<lambda>a. 0"]
  by (simp add: cast_ptr_def)

subsection \<open>Initializing an inflate stream\<close>

text \<open>
  C1. For every library routine standing for \<open>inflateInit2\<close>, every stream handle and
  every \<open>windowBits\<close>, \<open>CZlib_inflateInit2\<close> is the specification's forwarding operation,
  and in every state it does what the routine does when called directly with the same
  two arguments: the same fault, or the same status code and the same resulting state.
\<close>

theorem CZlib_inflateInit2_forwards:
  "CZlib_inflateInit2 lib strm windowBits = Initialize_Inflate_Stream lib strm windowBits
   \<and> CZlib_inflateInit2 lib strm windowBits s = lib strm windowBits s"
  by (simp add: CZlib_inflateInit2_unfold Initialize_Inflate_Stream_def)

text \<open>
  C6. Initializing one handle twice through \<open>CZlib_inflateInit2\<close>, with \<open>w1\<close> and then
  with \<open>w2\<close>, gives in every state what two direct calls of the library routine give:
  the same pair of status codes and the same final state, or the same fault. The second
  call starts in the state the first one left and in nothing else.
\<close>

theorem CZlib_inflateInit2_twice:
  "init_twice (CZlib_inflateInit2 lib) strm w1 w2 s = init_twice lib strm w1 w2 s"
  by (simp add: init_twice_def CZlib_inflateInit2_unfold)

end
